theory Spec2Isabelle
  imports Complex_Main "HOL-Library.Monad_Syntax" "HOL-Library.AList"
begin

section \<open>Data model\<close>

text \<open>
  The script \<^verbatim>\<open>gee-chm-gedi-sentinel2.js\<close> is a straight-line composition of Earth
  Engine calls.  Each call is embedded as a pure function on explicit data:

  \<^item> a pixel is a grid cell; a band maps each pixel to its value, \<open>None\<close> standing for a
    masked (no-data) pixel;
  \<^item> an image carries its acquisition date (\<^verbatim>\<open>system:time_start\<close>) and an ordered list
    of named bands;
  \<^item> an image collection is a list of images; a region of interest is the set of pixels
    it covers;
  \<^item> a platform call that the platform rejects (a band selector that matches nothing, a
    mask with the wrong number of bands) returns \<open>None\<close>.

  Pixel values and feature properties are real numbers: rounding is not modelled.
\<close>

type_synonym pixel = "int \<times> int"

type_synonym band = "pixel \<Rightarrow> real option"

type_synonym date = "nat \<times> nat \<times> nat"

record image =
  time_start :: date
  bands :: "(string \<times> band) list"

definition bandNames :: "image \<Rightarrow> string list" where
  "bandNames im = map fst (bands im)"

fun date_lt :: "date \<Rightarrow> date \<Rightarrow> bool" where
  "date_lt (y1, m1, d1) (y2, m2, d2) =
     (y1 < y2 \<or> (y1 = y2 \<and> (m1 < m2 \<or> (m1 = m2 \<and> d1 < d2))))"

definition date_le :: "date \<Rightarrow> date \<Rightarrow> bool" where
  "date_le a b = (a = b \<or> date_lt a b)"

section \<open>Earth Engine primitives used by the script\<close>

text \<open>
  Band selectors are regular expressions matched against the whole band name.  The
  selectors of the script use literal characters, \<^verbatim>\<open>.\<close> and a postfix \<^verbatim>\<open>*\<close> only.
\<close>

fun rmatch :: "string \<Rightarrow> string \<Rightarrow> bool" where
  "rmatch [] s = (s = [])"
| "rmatch [c] [] = False"
| "rmatch [c] (x # xs) = ((c = CHR ''.'' \<or> c = x) \<and> xs = [])"
| "rmatch (c # d # p) [] = (d = CHR ''*'' \<and> rmatch p [])"
| "rmatch (c # d # p) (x # xs) =
     (if d = CHR ''*''
      then rmatch p (x # xs) \<or> ((c = CHR ''.'' \<or> c = x) \<and> rmatch (c # d # p) xs)
      else (c = CHR ''.'' \<or> c = x) \<and> rmatch (d # p) xs)"

text \<open>
  \<^verbatim>\<open>Image.select(selectors)\<close>: for each selector in turn, the bands whose name it
  matches, in the image's band order; a selector that matches no band is an error.
\<close>

definition select_one :: "image \<Rightarrow> string \<Rightarrow> (string \<times> band) list option" where
  "select_one im s =
     (case filter (\<lambda>nb. rmatch s (fst nb)) (bands im) of [] \<Rightarrow> None | x # xs \<Rightarrow> Some (x # xs))"

fun select_all :: "image \<Rightarrow> string list \<Rightarrow> (string \<times> band) list option" where
  "select_all im [] = Some []"
| "select_all im (s # ss) =
     do { m \<leftarrow> select_one im s; r \<leftarrow> select_all im ss; Some (m @ r) }"

definition select :: "string list \<Rightarrow> image \<Rightarrow> image option" where
  "select ss im = map_option (\<lambda>bs. im\<lparr>bands := bs\<rparr>) (select_all im ss)"

text \<open>
  \<^verbatim>\<open>Image.eq(c)\<close>: per pixel, 1 where the value equals \<open>c\<close> and 0 elsewhere; a masked
  pixel stays masked.
\<close>

definition eq_px :: "real \<Rightarrow> band \<Rightarrow> band" where
  "eq_px c b = (\<lambda>p. map_option (\<lambda>v. if v = c then 1 else 0) (b p))"

definition eq_im :: "image \<Rightarrow> real \<Rightarrow> image" where
  "eq_im im c = im\<lparr>bands := map (\<lambda>nb. (fst nb, eq_px c (snd nb))) (bands im)\<rparr>"

text \<open>
  \<^verbatim>\<open>Image.updateMask(mask)\<close>: a pixel stays valid where it was valid and the mask is
  valid and non-zero; values, band names and metadata are kept.  A one-band mask applies
  to every band; otherwise the mask needs as many bands as the image and applies band by
  band.
\<close>

definition mask_band :: "band \<Rightarrow> band \<Rightarrow> band" where
  "mask_band m b = (\<lambda>p. case m p of None \<Rightarrow> None | Some v \<Rightarrow> if v = 0 then None else b p)"

definition updateMask :: "image \<Rightarrow> image \<Rightarrow> image option" where
  "updateMask im msk =
     (if length (bands msk) = 1
      then Some (im\<lparr>bands := map (\<lambda>nb. (fst nb, mask_band (snd (hd (bands msk))) (snd nb))) (bands im)\<rparr>)
      else if length (bands msk) = length (bands im)
      then Some (im\<lparr>bands := map (\<lambda>(nb, km). (fst nb, mask_band (snd km) (snd nb)))
                                  (zip (bands im) (bands msk))\<rparr>)
      else None)"

text \<open>
  \<^verbatim>\<open>ImageCollection.filterDate(start, stop)\<close>: the images whose date is at or after
  \<open>start\<close> and strictly before \<open>stop\<close>.
\<close>

definition filterDate :: "date \<Rightarrow> date \<Rightarrow> image list \<Rightarrow> image list" where
  "filterDate start stop c =
     filter (\<lambda>im. date_le start (time_start im) \<and> date_lt (time_start im) stop) c"

text \<open>\<^verbatim>\<open>Image.clip(geometry)\<close>: pixels outside the geometry are masked.\<close>

definition clip :: "image \<Rightarrow> pixel set \<Rightarrow> image" where
  "clip im g = im\<lparr>bands := map (\<lambda>nb. (fst nb, \<lambda>p. if p \<in> g then snd nb p else None)) (bands im)\<rparr>"

text \<open>
  \<^verbatim>\<open>ImageCollection.map(f)\<close> for an \<open>f\<close> that may be rejected: the collection fails
  when \<open>f\<close> fails on an element.
\<close>

fun map_collection :: "('a \<Rightarrow> 'b option) \<Rightarrow> 'a list \<Rightarrow> 'b list option" where
  "map_collection f [] = Some []"
| "map_collection f (x # xs) =
     do { y \<leftarrow> f x; ys \<leftarrow> map_collection f xs; Some (y # ys) }"

section \<open>Section 3 of the script: GEDI data processing\<close>

text \<open>
  \<^verbatim>\<open>
  var qualityMask = function(im) {
    return im.updateMask(im.select('quality_flag').eq(1))
             .updateMask(im.select('degrade_flag').eq(0));
  };
  \<close>
\<close>

definition qualityMask :: "image \<Rightarrow> image option" where
  "qualityMask im =
     do { q \<leftarrow> select [''quality_flag''] im;
          im1 \<leftarrow> updateMask im (eq_im q 1);
          d \<leftarrow> select [''degrade_flag''] im;
          updateMask im1 (eq_im d 0) }"

text \<open>
  \<^verbatim>\<open>
  var gedi = ee.ImageCollection('LARSE/GEDI/GEDI02_A_002_MONTHLY')
                .map(qualityMask)
                .filterDate('2019-06-01', '2019-10-01')
                .map(function(im) { return im.clip(ROI); })
                .select(['rh.*', 'lat_highestreturn', 'lon_highestreturn']);
  var gedi95 = gedi.select('rh95');
  \<close>
  The raw collection and the region of interest are the inputs.
\<close>

definition gedi :: "image list \<Rightarrow> pixel set \<Rightarrow> image list option" where
  "gedi raw ROI =
     do { c1 \<leftarrow> map_collection qualityMask raw;
          let c2 = filterDate (2019, 6, 1) (2019, 10, 1) c1;
          let c3 = map (\<lambda>im. clip im ROI) c2;
          map_collection (select [''rh.*'', ''lat_highestreturn'', ''lon_highestreturn'']) c3 }"

definition gedi95 :: "image list \<Rightarrow> pixel set \<Rightarrow> image list option" where
  "gedi95 raw ROI = do { g \<leftarrow> gedi raw ROI; map_collection (select [''rh95'']) g }"

section \<open>Section 4 of the script: vegetation indices\<close>

text \<open>
  \<^verbatim>\<open>Image.expression(text, dictionary)\<close> evaluates an arithmetic expression pixel by
  pixel; each variable of the dictionary stands for the first band of the image bound
  to it.  The three expressions of the script are built from variables, subtraction,
  addition and division, and are written here as their syntax trees.  A pixel of the
  result is masked where a pixel of an operand is masked.

  The script divides with a bare \<^verbatim>\<open>/\<close>; what the platform gives for a zero divisor is
  not in the script.  It is a parameter of the model: \<open>zero_divisor a\<close> is the pixel the
  platform gives for \<open>a / 0\<close>, \<open>None\<close> standing for a masked pixel.
\<close>

datatype expr = Var string | Sub expr expr | Add expr expr | Div expr expr

definition divide_px :: "(real \<Rightarrow> real option) \<Rightarrow> real \<Rightarrow> real \<Rightarrow> real option" where
  "divide_px zero_divisor a b = (if b = 0 then zero_divisor a else Some (a / b))"

fun eval_px :: "(real \<Rightarrow> real option) \<Rightarrow> (string \<Rightarrow> real option) \<Rightarrow> expr \<Rightarrow> real option" where
  "eval_px zd env (Var x) = env x"
| "eval_px zd env (Sub a b) =
     do { x \<leftarrow> eval_px zd env a; y \<leftarrow> eval_px zd env b; Some (x - y) }"
| "eval_px zd env (Add a b) =
     do { x \<leftarrow> eval_px zd env a; y \<leftarrow> eval_px zd env b; Some (x + y) }"
| "eval_px zd env (Div a b) =
     do { x \<leftarrow> eval_px zd env a; y \<leftarrow> eval_px zd env b; divide_px zd x y }"

fun expr_vars :: "expr \<Rightarrow> string list" where
  "expr_vars (Var x) = [x]"
| "expr_vars (Sub a b) = expr_vars a @ expr_vars b"
| "expr_vars (Add a b) = expr_vars a @ expr_vars b"
| "expr_vars (Div a b) = expr_vars a @ expr_vars b"

definition first_band :: "image \<Rightarrow> band" where
  "first_band im = (case bands im of [] \<Rightarrow> (\<lambda>p. None) | nb # _ \<Rightarrow> snd nb)"

text \<open>
  The result has one band; a variable that the dictionary does not bind is an error.
  The band takes the name of the first band of the dictionary's first image (the script
  renames it at once).
\<close>

definition result_name :: "(string \<times> image) list \<Rightarrow> string" where
  "result_name dict =
     (case dict of [] \<Rightarrow> ''constant''
      | d # _ \<Rightarrow> (case bands (snd d) of [] \<Rightarrow> ''constant'' | nb # _ \<Rightarrow> fst nb))"

definition expression ::
  "(real \<Rightarrow> real option) \<Rightarrow> image \<Rightarrow> expr \<Rightarrow> (string \<times> image) list \<Rightarrow> image option" where
  "expression zd im e dict =
     (if set (expr_vars e) \<subseteq> set (map fst dict)
      then Some (im\<lparr>bands :=
             [(result_name dict,
               \<lambda>p. eval_px zd (\<lambda>x. case map_of dict x of None \<Rightarrow> None | Some v \<Rightarrow> first_band v p) e)]\<rparr>)
      else None)"

text \<open>\<^verbatim>\<open>Image.rename(names)\<close>: new band names, one for each band.\<close>

definition rename :: "image \<Rightarrow> string list \<Rightarrow> image option" where
  "rename im names =
     (if length names = length (bands im)
      then Some (im\<lparr>bands := zip names (map snd (bands im))\<rparr>)
      else None)"

text \<open>
  \<^verbatim>\<open>Image.addBands(source)\<close> (no overwrite): the bands of the source are appended; a band
  whose name the image already has is suffixed with \<^verbatim>\<open>_1\<close>.
\<close>

fun append_bands :: "(string \<times> band) list \<Rightarrow> (string \<times> band) list \<Rightarrow> (string \<times> band) list" where
  "append_bands bs [] = bs"
| "append_bands bs (nb # src) =
     append_bands (bs @ [(if fst nb \<in> set (map fst bs) then fst nb @ ''_1'' else fst nb, snd nb)]) src"

definition addBands :: "image \<Rightarrow> image \<Rightarrow> image" where
  "addBands im src = im\<lparr>bands := append_bands (bands im) (bands src)\<rparr>"

text \<open>
  \<^verbatim>\<open>
  var ndvi = image.expression('((NIR - Red) / (NIR + Red))', {
    'NIR': image.select('B8_median'),
    'Red': image.select('B4_median')
  }).rename('ndvi');
  var nbr = image.expression('((NIR - SWIR1) / (NIR + SWIR1))', {
    'NIR': image.select('B8_median'),
    'SWIR1': image.select('B11_median')
  }).rename('nbr');
  var ndmi = image.expression('((NIR - SWIR2) / (NIR + SWIR2))', {
    'NIR': image.select('B8_median'),
    'SWIR2': image.select('B12_median')
  }).rename('ndmi');
  var stacked = image.addBands(ndvi).addBands(nbr).addBands(ndmi);
  \<close>
\<close>

definition ndvi :: "(real \<Rightarrow> real option) \<Rightarrow> image \<Rightarrow> image option" where
  "ndvi zd img =
     do { nir \<leftarrow> select [''B8_median''] img;
          red \<leftarrow> select [''B4_median''] img;
          e \<leftarrow> expression zd img
                 (Div (Sub (Var ''NIR'') (Var ''Red'')) (Add (Var ''NIR'') (Var ''Red'')))
                 [(''NIR'', nir), (''Red'', red)];
          rename e [''ndvi''] }"

definition nbr :: "(real \<Rightarrow> real option) \<Rightarrow> image \<Rightarrow> image option" where
  "nbr zd img =
     do { nir \<leftarrow> select [''B8_median''] img;
          swir1 \<leftarrow> select [''B11_median''] img;
          e \<leftarrow> expression zd img
                 (Div (Sub (Var ''NIR'') (Var ''SWIR1'')) (Add (Var ''NIR'') (Var ''SWIR1'')))
                 [(''NIR'', nir), (''SWIR1'', swir1)];
          rename e [''nbr''] }"

definition ndmi :: "(real \<Rightarrow> real option) \<Rightarrow> image \<Rightarrow> image option" where
  "ndmi zd img =
     do { nir \<leftarrow> select [''B8_median''] img;
          swir2 \<leftarrow> select [''B12_median''] img;
          e \<leftarrow> expression zd img
                 (Div (Sub (Var ''NIR'') (Var ''SWIR2'')) (Add (Var ''NIR'') (Var ''SWIR2'')))
                 [(''NIR'', nir), (''SWIR2'', swir2)];
          rename e [''ndmi''] }"

definition stacked :: "(real \<Rightarrow> real option) \<Rightarrow> image \<Rightarrow> image option" where
  "stacked zd img =
     do { a \<leftarrow> ndvi zd img;
          b \<leftarrow> nbr zd img;
          c \<leftarrow> ndmi zd img;
          Some (addBands (addBands (addBands img a) b) c) }"

text \<open>The band of an image under a name, as \<^verbatim>\<open>select(name)\<close> finds it.\<close>

definition band_of :: "image \<Rightarrow> string \<Rightarrow> band option" where
  "band_of im n = map_of (bands im) n"

text \<open>The normalized difference of the specification, \<open>(A - B) / (A + B)\<close>.\<close>

definition spec_normalized_difference :: "real \<Rightarrow> real \<Rightarrow> real" where
  "spec_normalized_difference a b = (a - b) / (a + b)"

text \<open>
  The band that the expression \<open>(x - y) / (x + y)\<close> computes from the bands bound to \<open>x\<close>
  and \<open>y\<close>.
\<close>

definition index_band :: "(real \<Rightarrow> real option) \<Rightarrow> band \<Rightarrow> band \<Rightarrow> band" where
  "index_band zd a b =
     (\<lambda>p. case a p of None \<Rightarrow> None
          | Some u \<Rightarrow> (case b p of None \<Rightarrow> None | Some v \<Rightarrow> divide_px zd (u - v) (u + v)))"

section \<open>Section 6 of the script: training and testing samples\<close>

text \<open>
  A feature has an optional geometry (the pixel it lies on) and a dictionary of
  properties; a property that is absent from the dictionary is null.
\<close>

record feature =
  geometry :: "pixel option"
  properties :: "(string \<times> real) list"

definition get :: "feature \<Rightarrow> string \<Rightarrow> real option" where
  "get f k = map_of (properties f) k"

definition set_prop :: "string \<Rightarrow> real \<Rightarrow> feature \<Rightarrow> feature" where
  "set_prop k v f = f\<lparr>properties := AList.update k v (properties f)\<rparr>"

text \<open>
  The filters of the script: \<^verbatim>\<open>ee.Filter.neq(name, value)\<close> (with \<open>None\<close> for null),
  \<^verbatim>\<open>ee.Filter.lt(name, value)\<close> and \<^verbatim>\<open>ee.Filter.gte(name, value)\<close>.  A comparison with
  a null property does not hold.
\<close>

datatype ee_filter =
  Filter_neq string "real option"
| Filter_lt string real
| Filter_gte string real

fun applies :: "ee_filter \<Rightarrow> feature \<Rightarrow> bool" where
  "applies (Filter_neq k v) f = (get f k \<noteq> v)"
| "applies (Filter_lt k c) f = (case get f k of None \<Rightarrow> False | Some v \<Rightarrow> v < c)"
| "applies (Filter_gte k c) f = (case get f k of None \<Rightarrow> False | Some v \<Rightarrow> c \<le> v)"

definition filter_fc :: "ee_filter \<Rightarrow> feature list \<Rightarrow> feature list" where
  "filter_fc flt col = filter (applies flt) col"

text \<open>
  \<^verbatim>\<open>FeatureCollection.randomColumn(columnName, seed)\<close>, \<open>seed\<close> being 0 when the call
  does not give it, as in the script.  The platform's generator is a parameter: \<open>rng seed i\<close> is the
  number it gives the \<open>i\<close>-th feature under \<open>seed\<close>.
\<close>

definition randomColumn ::
  "(int \<Rightarrow> nat \<Rightarrow> real) \<Rightarrow> feature list \<Rightarrow> string \<Rightarrow> int \<Rightarrow> feature list" where
  "randomColumn rng col columnName seed =
     map (\<lambda>(i, f). set_prop columnName (rng seed i) f) (zip [0 ..< length col] col)"

text \<open>
  \<^verbatim>\<open>
  var validFeatures = S2samples.filter(ee.Filter.neq('rh95', null));
  var withRandom = validFeatures.randomColumn('random');
  var trainingSamples = withRandom.filter(ee.Filter.lt('random', 0.7));
  var testingSamples = withRandom.filter(ee.Filter.gte('random', 0.7));
  \<close>
\<close>

definition validFeatures :: "feature list \<Rightarrow> feature list" where
  "validFeatures S2samples = filter_fc (Filter_neq ''rh95'' None) S2samples"

definition withRandom :: "(int \<Rightarrow> nat \<Rightarrow> real) \<Rightarrow> feature list \<Rightarrow> feature list" where
  "withRandom rng S2samples = randomColumn rng (validFeatures S2samples) ''random'' 0"

definition trainingSamples :: "(int \<Rightarrow> nat \<Rightarrow> real) \<Rightarrow> feature list \<Rightarrow> feature list" where
  "trainingSamples rng S2samples = filter_fc (Filter_lt ''random'' (7 / 10)) (withRandom rng S2samples)"

definition testingSamples :: "(int \<Rightarrow> nat \<Rightarrow> real) \<Rightarrow> feature list \<Rightarrow> feature list" where
  "testingSamples rng S2samples = filter_fc (Filter_gte ''random'' (7 / 10)) (withRandom rng S2samples)"

section \<open>Section 7 of the script: the random forest\<close>

text \<open>
  \<^verbatim>\<open>Image.sampleRegions(collection, properties)\<close>: for each feature of the collection,
  a feature with the image's band values at the feature's pixel and the listed properties
  copied; a feature with no geometry, or whose pixel is masked in a band, is dropped.
  One grid stands for every scale.
\<close>

definition sample_at :: "image \<Rightarrow> pixel \<Rightarrow> (string \<times> real) list option" where
  "sample_at im p = map_collection (\<lambda>nb. map_option (Pair (fst nb)) (snd nb p)) (bands im)"

definition sampleRegions :: "image \<Rightarrow> feature list \<Rightarrow> string list \<Rightarrow> feature list" where
  "sampleRegions im col props =
     List.map_filter
       (\<lambda>f. case geometry f of None \<Rightarrow> None
            | Some p \<Rightarrow> map_option
                (\<lambda>vals. \<lparr>geometry = None,
                          properties = vals @ filter (\<lambda>kv. fst kv \<in> set props) (properties f)\<rparr>)
                (sample_at im p))
       col"

datatype output_mode = CLASSIFICATION | REGRESSION | PROBABILITY

record classifier =
  numberOfTrees :: nat
  variablesPerSplit :: "nat option"
  minLeafPopulation :: nat
  bagFraction :: real
  maxNodes :: "nat option"
  seed :: int
  outputMode :: output_mode

record trained_classifier =
  config :: classifier
  features :: "feature list"
  inputProperties :: "string list"
  classProperty :: string

text \<open>
  \<^verbatim>\<open>ee.Classifier.smileRandomForest({numberOfTrees, minLeafPopulation, bagFraction, seed})\<close>:
  the arguments the script leaves out take the platform's defaults (no limit), and a new
  classifier is in classification mode.
\<close>

definition smileRandomForest :: "nat \<Rightarrow> nat \<Rightarrow> real \<Rightarrow> int \<Rightarrow> classifier" where
  "smileRandomForest n leaf bag sd =
     \<lparr>numberOfTrees = n, variablesPerSplit = None, minLeafPopulation = leaf,
      bagFraction = bag, maxNodes = None, seed = sd, outputMode = CLASSIFICATION\<rparr>"

definition setOutputMode :: "string \<Rightarrow> classifier \<Rightarrow> classifier option" where
  "setOutputMode m c =
     (if m = ''CLASSIFICATION'' then Some (c\<lparr>outputMode := CLASSIFICATION\<rparr>)
      else if m = ''REGRESSION'' then Some (c\<lparr>outputMode := REGRESSION\<rparr>)
      else if m = ''PROBABILITY'' then Some (c\<lparr>outputMode := PROBABILITY\<rparr>)
      else None)"

definition train :: "classifier \<Rightarrow> feature list \<Rightarrow> string list \<Rightarrow> string \<Rightarrow> trained_classifier" where
  "train c fs inputs target =
     \<lparr>config = c, features = fs, inputProperties = inputs, classProperty = target\<rparr>"

text \<open>
  \<^verbatim>\<open>
  var inputBands = ['B2_median','B3_median','B4_median','B5_median','B7_median',
  'B8_median','B11_median','B12_median','ndvi','nbr','ndmi'];
  var training = stacked.sampleRegions({
    collection: trainingSamples, properties: ['rh95'], scale: 25 });
  var RFmodel = ee.Classifier.smileRandomForest({
    numberOfTrees: 74, minLeafPopulation: 3, bagFraction: 1, seed: 123 })
  .setOutputMode('REGRESSION')
  .train({ features: training, inputProperties: inputBands, classProperty: 'rh95' });
  \<close>
\<close>

definition inputBands :: "string list" where
  "inputBands = [''B2_median'', ''B3_median'', ''B4_median'', ''B5_median'', ''B7_median'',
     ''B8_median'', ''B11_median'', ''B12_median'', ''ndvi'', ''nbr'', ''ndmi'']"

definition training :: "image \<Rightarrow> feature list \<Rightarrow> feature list" where
  "training stacked_image training_samples = sampleRegions stacked_image training_samples [''rh95'']"

definition RFmodel :: "feature list \<Rightarrow> trained_classifier option" where
  "RFmodel training_table =
     do { c \<leftarrow> setOutputMode ''REGRESSION'' (smileRandomForest 74 3 1 123);
          Some (train c training_table inputBands ''rh95'') }"

text \<open>The band names the specification counts: eight spectral bands and three indices.\<close>

definition spectral_bands :: "string list" where
  "spectral_bands = [''B2_median'', ''B3_median'', ''B4_median'', ''B5_median'', ''B7_median'',
     ''B8_median'', ''B11_median'', ''B12_median'']"

definition index_bands :: "string list" where
  "index_bands = [''ndvi'', ''nbr'', ''ndmi'']"

section \<open>The evaluation on the testing subset\<close>





text \<open>
  \<^verbatim>\<open>FeatureCollection.aggregate_array(property)\<close>: the values of the property in the
  collection's order, the features where it is null left out.  \<^verbatim>\<open>List.zip\<close> pairs two
  lists by position and stops at the end of the shorter one.  \<^verbatim>\<open>List.reduce('mean')\<close> of
  an empty list is null, and a number cannot be made of null.
\<close>

definition aggregate_array :: "feature list \<Rightarrow> string \<Rightarrow> real list" where
  "aggregate_array col k = List.map_filter (\<lambda>f. get f k) col"

definition reduce_mean :: "real list \<Rightarrow> real option" where
  "reduce_mean xs = (if xs = [] then None else Some (sum_list xs / real (length xs)))"

text \<open>
  \<^verbatim>\<open>
  var rmse = testPred.aggregate_array('rh95')
    .zip(testPred.aggregate_array('classification'))
    .map(function(pair) {
      var obs = ee.Number(ee.List(pair).get(0));
      var pred = ee.Number(ee.List(pair).get(1));
      return pred.subtract(obs).pow(2);
    });
  var rmseVal = ee.Number(rmse.reduce('mean')).sqrt();
  var mae = testPred.aggregate_array('rh95')
    .zip(testPred.aggregate_array('classification'))
    .map(function(pair) {
      var obs = ee.Number(ee.List(pair).get(0));
      var pred = ee.Number(ee.List(pair).get(1));
      return pred.subtract(obs).abs();
    });
  var maeVal = ee.Number(mae.reduce('mean'));
  \<close>
\<close>

definition pairs :: "feature list \<Rightarrow> (real \<times> real) list" where
  "pairs testPred =
     zip (aggregate_array testPred ''rh95'') (aggregate_array testPred ''classification'')"

definition rmse :: "feature list \<Rightarrow> real list" where
  "rmse testPred = map (\<lambda>pair. (snd pair - fst pair) ^ 2) (pairs testPred)"

definition rmseVal :: "feature list \<Rightarrow> real option" where
  "rmseVal testPred = map_option sqrt (reduce_mean (rmse testPred))"

definition mae :: "feature list \<Rightarrow> real list" where
  "mae testPred = map (\<lambda>pair. \<bar>snd pair - fst pair\<bar>) (pairs testPred)"

definition maeVal :: "feature list \<Rightarrow> real option" where
  "maeVal testPred = reduce_mean (mae testPred)"

text \<open>
  The metrics as the specification words them, over a list of (prediction, observation)
  pairs: \<open>sqrt(mean((pred - obs)^2))\<close> and \<open>mean(|pred - obs|)\<close>.
\<close>

definition spec_RMSE :: "(real \<times> real) list \<Rightarrow> real" where
  "spec_RMSE po = sqrt ((\<Sum>(pred, obs) \<leftarrow> po. (pred - obs) ^ 2) / real (length po))"

definition spec_MAE :: "(real \<times> real) list \<Rightarrow> real" where
  "spec_MAE po = (\<Sum>(pred, obs) \<leftarrow> po. \<bar>pred - obs\<bar>) / real (length po)"

section \<open>The run of sections 6 and 7\<close>

text \<open>
  What the script does between the split and the fit, in its order: it prints the two
  sample counts, submits the two table exports and asks the platform to train the forest
  on the sampled training table.  There is no branch in this part of the script.
  \<^verbatim>\<open>
  print('Training samples count:', trainingSamples.size());
  print('Testing samples count:', testingSamples.size());
  Export.table.toDrive({ collection: trainingSamples, description: 'GEDI_training_samples_NY_2019', ... });
  Export.table.toDrive({ collection: testingSamples, description: 'GEDI_testing_samples_NY_2019', ... });
  \<close>
\<close>

record run =
  console :: "(string \<times> nat) list"
  exports :: "(string \<times> feature list) list"
  fitted :: trained_classifier

definition run_script ::
  "(real \<Rightarrow> real option) \<Rightarrow> (int \<Rightarrow> nat \<Rightarrow> real) \<Rightarrow> image \<Rightarrow> feature list \<Rightarrow> run option" where
  "run_script zd rng img S2samples =
     do { st \<leftarrow> stacked zd img;
          m \<leftarrow> RFmodel (training st (trainingSamples rng S2samples));
          Some \<lparr>console = [(''Training samples count:'', length (trainingSamples rng S2samples)),
                           (''Testing samples count:'', length (testingSamples rng S2samples))],
                exports = [(''GEDI_training_samples_NY_2019'', trainingSamples rng S2samples),
                           (''GEDI_testing_samples_NY_2019'', testingSamples rng S2samples)],
                fitted = m\<rparr> }"



section \<open>Example inputs\<close>

text \<open>
  A GEDI image of July 2019 with two height bands, the two coordinate bands and the two
  flags; its shot at pixel \<open>(0, 0)\<close> is of good quality, the others are not.  The second
  image of the collection is the same raster dated 15 October 2019.
\<close>

definition ex_im :: image where
  "ex_im = \<lparr>time_start = (2019, 7, 1),
     bands = [(''rh50'', \<lambda>p. Some 5), (''rh95'', \<lambda>p. Some 20),
              (''lat_highestreturn'', \<lambda>p. Some 42), (''lon_highestreturn'', \<lambda>p. Some (- 75)),
              (''quality_flag'', \<lambda>p. if p = (0, 0) then Some 1 else Some 0),
              (''degrade_flag'', \<lambda>p. Some 0)]\<rparr>"

definition ex_raw :: "image list" where
  "ex_raw = [ex_im, ex_im\<lparr>time_start := (2019, 10, 15)\<rparr>]"

definition ex_ROI :: "pixel set" where
  "ex_ROI = {(0, 0), (0, 1)}"

definition values_at :: "pixel \<Rightarrow> image \<Rightarrow> real option list" where
  "values_at p im = map (\<lambda>nb. snd nb p) (bands im)"

text \<open>
  A composite with the eight spectral bands, whose red band is masked at pixel
  \<open>(2, 2)\<close>.  No pixel of it has a zero denominator, and the examples take the platform
  to mask a pixel on a zero divisor.
\<close>

definition ex_composite :: image where
  "ex_composite = \<lparr>time_start = (2019, 6, 1),
     bands = [(''B2_median'', \<lambda>p. Some 400), (''B3_median'', \<lambda>p. Some 600),
              (''B4_median'', \<lambda>p. if p = (2, 2) then None else Some 1000),
              (''B5_median'', \<lambda>p. Some 1200), (''B7_median'', \<lambda>p. Some 2500),
              (''B8_median'', \<lambda>p. Some 3000), (''B11_median'', \<lambda>p. Some 2000),
              (''B12_median'', \<lambda>p. Some 1500)]\<rparr>"

definition ex_zero_divisor :: "real \<Rightarrow> real option" where
  "ex_zero_divisor a = None"

text \<open>Four joined samples; the second has no \<open>rh95\<close>.\<close>

definition ex_S2samples :: "feature list" where
  "ex_S2samples =
     [\<lparr>geometry = Some (0, 0), properties = [(''rh95'', 12), (''B8_median'', 3000)]\<rparr>,
      \<lparr>geometry = Some (0, 1), properties = [(''B8_median'', 2500)]\<rparr>,
      \<lparr>geometry = Some (1, 0), properties = [(''rh95'', 7), (''B8_median'', 2800)]\<rparr>,
      \<lparr>geometry = Some (1, 1), properties = [(''rh95'', 31)]\<rparr>]"

text \<open>Samples that all lack \<open>rh95\<close>.\<close>

definition ex_null_samples :: "feature list" where
  "ex_null_samples =
     [\<lparr>geometry = Some (1, 1), properties = [(''B8_median'', 3000)]\<rparr>,
      \<lparr>geometry = Some (1, 2), properties = []\<rparr>]"

text \<open>A generator with values 0, 2/5, 4/5, 1/5, 3/5, ... under seed 0.\<close>

definition ex_rng :: "int \<Rightarrow> nat \<Rightarrow> real" where
  "ex_rng sd i = (if sd = 0 then real ((2 * i) mod 5) / 5 else 0)"

text \<open>
  The predictions and observations of the specification's example:
  observed 10, 20, 30 and predicted 12, 18, 33.
\<close>

definition ex_testPred :: "feature list" where
  "ex_testPred =
     [\<lparr>geometry = None, properties = [(''B8_median'', 3000), (''rh95'', 10), (''classification'', 12)]\<rparr>,
      \<lparr>geometry = None, properties = [(''B8_median'', 2500), (''rh95'', 20), (''classification'', 18)]\<rparr>,
      \<lparr>geometry = None, properties = [(''B8_median'', 2800), (''rh95'', 30), (''classification'', 33)]\<rparr>]"




section \<open>Facts about the primitives\<close>

lemma rmatch_dotstar: "rmatch ''.*'' s"
  by (induction s) auto

lemma rmatch_rh: "rmatch ''rh.*'' s \<longleftrightarrow> take 2 s = ''rh''"
proof (cases s)
  case Nil
  then show ?thesis by simp
next
  case (Cons a t)
  then show ?thesis by (cases t) (auto simp: rmatch_dotstar)
qed

lemma rmatch_literal:
  "CHR ''.'' \<notin> set p \<Longrightarrow> CHR ''*'' \<notin> set p \<Longrightarrow> rmatch p s \<longleftrightarrow> s = p"
  by (induction p s rule: rmatch.induct) auto

lemma select_one_sub:
  "select_one im s = Some bs \<Longrightarrow> bs = filter (\<lambda>nb. rmatch s (fst nb)) (bands im)"
  by (auto simp: select_one_def split: list.splits)

lemma select_all_sub:
  "select_all im ss = Some bs \<Longrightarrow> nb \<in> set bs \<Longrightarrow>
     nb \<in> set (bands im) \<and> (\<exists>s \<in> set ss. rmatch s (fst nb))"
proof (induction ss arbitrary: bs)
  case Nil
  then show ?case by simp
next
  case (Cons s ss)
  from Cons.prems(1) obtain m r where m: "select_one im s = Some m"
    and r: "select_all im ss = Some r" and bs: "bs = m @ r"
    by (auto split: Option.bind_splits)
  from Cons.prems(2) bs consider "nb \<in> set m" | "nb \<in> set r" by auto
  then show ?case
  proof cases
    case 1
    with select_one_sub [OF m] show ?thesis by auto
  next
    case 2
    with Cons.IH [OF r] show ?thesis by auto
  qed
qed

lemma mask_band_Some:
  "mask_band m b p = Some v \<Longrightarrow> b p = Some v \<and> (\<exists>w. m p = Some w \<and> w \<noteq> 0)"
  by (auto simp: mask_band_def split: option.splits if_splits)

lemma eq_px_nonzero: "eq_px c b p = Some w \<Longrightarrow> w \<noteq> 0 \<Longrightarrow> b p = Some c"
  by (cases "b p") (auto simp: eq_px_def split: if_splits)

lemma updateMask_shape:
  assumes "updateMask im msk = Some im'"
  shows "bandNames im' = bandNames im" and "time_start im' = time_start im"
proof -
  show "bandNames im' = bandNames im"
    using assms
    by (auto simp: updateMask_def bandNames_def split: if_splits intro!: nth_equalityI)
  show "time_start im' = time_start im"
    using assms by (auto simp: updateMask_def split: if_splits)
qed

lemma updateMask_band:
  assumes "updateMask im msk = Some im'" and "i < length (bands im)"
  shows "\<exists>km \<in> set (bands msk). snd (bands im' ! i) = mask_band (snd km) (snd (bands im ! i))"
proof (cases "length (bands msk) = 1")
  case True
  then have "hd (bands msk) \<in> set (bands msk)" by (cases "bands msk") auto
  with True assms show ?thesis by (auto simp: updateMask_def)
next
  case False
  with assms have len: "length (bands msk) = length (bands im)"
    and im': "im' = im\<lparr>bands := map (\<lambda>(nb, km). (fst nb, mask_band (snd km) (snd nb)))
                                  (zip (bands im) (bands msk))\<rparr>"
    by (auto simp: updateMask_def split: if_splits)
  from len assms(2) have "bands msk ! i \<in> set (bands msk)" by simp
  with im' len assms(2) show ?thesis by auto
qed

lemma select_Some:
  "select ss im = Some d \<Longrightarrow> select_all im ss = Some (bands d) \<and> time_start d = time_start im"
  by (auto simp: select_def)

lemma select_literal_band:
  assumes "select [n] im = Some d" and "nb \<in> set (bands d)"
    and "CHR ''.'' \<notin> set n" and "CHR ''*'' \<notin> set n"
  shows "nb \<in> set (bands im) \<and> fst nb = n"
proof -
  from select_Some [OF assms(1)] have "select_all im [n] = Some (bands d)" by simp
  from select_all_sub [OF this assms(2)] show ?thesis
    using rmatch_literal [OF assms(3,4)] by auto
qed

lemma eq_im_band:
  "km \<in> set (bands (eq_im d c)) \<Longrightarrow> \<exists>nb \<in> set (bands d). km = (fst nb, eq_px c (snd nb))"
  by (auto simp: eq_im_def)

lemma updateMask_length:
  "updateMask im msk = Some im' \<Longrightarrow> length (bands im') = length (bands im)"
  using updateMask_shape(1) [of im msk im'] by (metis bandNames_def length_map)

lemma updateMask_flag:
  assumes um: "updateMask im (eq_im d c) = Some im'" and i: "i < length (bands im)"
    and v: "snd (bands im' ! i) p = Some v"
  shows "snd (bands im ! i) p = Some v \<and> (\<exists>nb \<in> set (bands d). snd nb p = Some c)"
proof -
  from updateMask_band [OF um i] obtain km where km: "km \<in> set (bands (eq_im d c))"
    and eq: "snd (bands im' ! i) = mask_band (snd km) (snd (bands im ! i))" by blast
  from v eq have "mask_band (snd km) (snd (bands im ! i)) p = Some v" by simp
  from mask_band_Some [OF this] obtain w where b: "snd (bands im ! i) p = Some v"
    and w: "snd km p = Some w" "w \<noteq> 0" by blast
  from eq_im_band [OF km] obtain nb where nb: "nb \<in> set (bands d)"
    and "km = (fst nb, eq_px c (snd nb))" by blast
  with w have "eq_px c (snd nb) p = Some w" by simp
  from eq_px_nonzero [OF this w(2)] nb b show ?thesis by blast
qed

lemma qualityMask_steps:
  "qualityMask im = Some im' \<Longrightarrow>
     \<exists>q im1 d. select [''quality_flag''] im = Some q \<and> updateMask im (eq_im q 1) = Some im1 \<and>
               select [''degrade_flag''] im = Some d \<and> updateMask im1 (eq_im d 0) = Some im'"
  by (auto simp: qualityMask_def split: Option.bind_splits)

lemma qualityMask_pixel:
  assumes qm: "qualityMask im = Some im'" and i: "i < length (bands im)"
    and v: "snd (bands im' ! i) p = Some v"
  shows "snd (bands im ! i) p = Some v \<and>
         (\<exists>q. (''quality_flag'', q) \<in> set (bands im) \<and> q p = Some 1) \<and>
         (\<exists>d. (''degrade_flag'', d) \<in> set (bands im) \<and> d p = Some 0)"
proof -
  from qualityMask_steps [OF qm] obtain q im1 d where
    q: "select [''quality_flag''] im = Some q" and u1: "updateMask im (eq_im q 1) = Some im1" and
    d: "select [''degrade_flag''] im = Some d" and u2: "updateMask im1 (eq_im d 0) = Some im'"
    by blast
  from updateMask_length [OF u1] i have i1: "i < length (bands im1)" by simp
  from updateMask_flag [OF u2 i1 v] obtain nd where
    v1: "snd (bands im1 ! i) p = Some v" and nd: "nd \<in> set (bands d)" "snd nd p = Some 0"
    by blast
  from updateMask_flag [OF u1 i v1] obtain nq where
    v0: "snd (bands im ! i) p = Some v" and nq: "nq \<in> set (bands q)" "snd nq p = Some 1"
    by blast
  from select_literal_band [OF q nq(1)] have "nq \<in> set (bands im)" "fst nq = ''quality_flag''"
    by simp_all
  with nq(2) have Q: "\<exists>q. (''quality_flag'', q) \<in> set (bands im) \<and> q p = Some 1"
    by (metis prod.collapse)
  from select_literal_band [OF d nd(1)] have "nd \<in> set (bands im)" "fst nd = ''degrade_flag''"
    by simp_all
  with nd(2) have D: "\<exists>d. (''degrade_flag'', d) \<in> set (bands im) \<and> d p = Some 0"
    by (metis prod.collapse)
  from v0 Q D show ?thesis by blast
qed

lemma qualityMask_shape:
  assumes "qualityMask im = Some im'"
  shows "bandNames im' = bandNames im" and "time_start im' = time_start im"
  using qualityMask_steps [OF assms] updateMask_shape by (metis, metis)

lemma map_collection_mem:
  "map_collection f xs = Some ys \<Longrightarrow> y \<in> set ys \<Longrightarrow> \<exists>x \<in> set xs. f x = Some y"
proof (induction xs arbitrary: ys)
  case Nil
  then show ?case by simp
next
  case (Cons x xs)
  from Cons.prems(1) obtain z zs where "f x = Some z" "map_collection f xs = Some zs" "ys = z # zs"
    by (auto split: Option.bind_splits)
  with Cons.IH [of zs] Cons.prems(2) show ?case by auto
qed

lemma select_three:
  assumes "select [s1, s2, s3] im = Some d"
  shows "bands d = filter (\<lambda>nb. rmatch s1 (fst nb)) (bands im) @
                   filter (\<lambda>nb. rmatch s2 (fst nb)) (bands im) @
                   filter (\<lambda>nb. rmatch s3 (fst nb)) (bands im)"
proof -
  from select_Some [OF assms] have "select_all im [s1, s2, s3] = Some (bands d)" by simp
  then obtain a b c where a: "select_one im s1 = Some a" and b: "select_one im s2 = Some b"
    and c: "select_one im s3 = Some c" and d: "bands d = a @ b @ c"
    by (auto split: Option.bind_splits)
  from d select_one_sub [OF a] select_one_sub [OF b] select_one_sub [OF c]
  show ?thesis by simp
qed

lemma clip_shape: "bandNames (clip m g) = bandNames m" "time_start (clip m g) = time_start m"
  by (simp_all add: clip_def bandNames_def comp_def)

lemma clip_band:
  assumes "(n, b') \<in> set (bands (clip m g))" and "b' p = Some v"
  shows "p \<in> g \<and> (\<exists>j < length (bands m). fst (bands m ! j) = n \<and> snd (bands m ! j) p = Some v)"
proof -
  from assms(1) obtain nb where nb: "nb \<in> set (bands m)" and n: "n = fst nb"
    and b': "b' = (\<lambda>p. if p \<in> g then snd nb p else None)"
    by (auto simp: clip_def)
  from nb obtain j where "j < length (bands m)" "bands m ! j = nb" by (auto simp: in_set_conv_nth)
  with n b' assms(2) show ?thesis by (auto split: if_splits)
qed

lemma gedi_steps:
  assumes "gedi raw ROI = Some out" and "im' \<in> set out"
  shows "\<exists>im \<in> set raw. \<exists>m. qualityMask im = Some m \<and>
           date_le (2019, 6, 1) (time_start m) \<and> date_lt (time_start m) (2019, 10, 1) \<and>
           select [''rh.*'', ''lat_highestreturn'', ''lon_highestreturn''] (clip m ROI) = Some im'"
proof -
  from assms(1) obtain c1 where c1: "map_collection qualityMask raw = Some c1"
    and out: "map_collection (select [''rh.*'', ''lat_highestreturn'', ''lon_highestreturn''])
                (map (\<lambda>im. clip im ROI) (filterDate (2019, 6, 1) (2019, 10, 1) c1)) = Some out"
    by (auto simp: gedi_def Let_def split: Option.bind_splits)
  from map_collection_mem [OF out assms(2)] obtain m where
    m: "m \<in> set (filterDate (2019, 6, 1) (2019, 10, 1) c1)"
    and sel: "select [''rh.*'', ''lat_highestreturn'', ''lon_highestreturn''] (clip m ROI) = Some im'"
    by auto
  from m have mc: "m \<in> set c1" and dt: "date_le (2019, 6, 1) (time_start m)"
    "date_lt (time_start m) (2019, 10, 1)"
    by (auto simp: filterDate_def)
  from map_collection_mem [OF c1 mc] obtain im where "im \<in> set raw" "qualityMask im = Some m"
    by auto
  with dt sel show ?thesis by blast
qed

lemma selector_names:
  "rmatch ''lat_highestreturn'' n \<longleftrightarrow> n = ''lat_highestreturn''"
  "rmatch ''lon_highestreturn'' n \<longleftrightarrow> n = ''lon_highestreturn''"
  by (simp_all add: rmatch_literal)

lemma ex_qualityMask:
  "map_option (values_at (0, 0)) (qualityMask ex_im) = Some [Some 5, Some 20, Some 42, Some (- 75), Some 1, Some 0]"
  by (simp add: qualityMask_def ex_im_def select_def select_one_def updateMask_def eq_im_def
      mask_band_def eq_px_def values_at_def)

lemma ex_gedi_names:
  "map_option (map bandNames) (gedi ex_raw ex_ROI) =
     Some [[''rh50'', ''rh95'', ''lat_highestreturn'', ''lon_highestreturn'']]"
  by (simp add: gedi_def ex_raw_def ex_ROI_def qualityMask_def ex_im_def select_def select_one_def
      updateMask_def eq_im_def filterDate_def date_le_def clip_def bandNames_def)

lemma get_set_prop: "get (set_prop k v f) k' = (if k' = k then Some v else get f k')"
  by (simp add: get_def set_prop_def update_conv')

lemma validFeatures_conv: "validFeatures S = filter (\<lambda>f. get f ''rh95'' \<noteq> None) S"
  unfolding validFeatures_def filter_fc_def by (rule filter_cong) auto

lemma withRandom_nth:
  "i < length (validFeatures S) \<Longrightarrow>
     withRandom rng S ! i = set_prop ''random'' (rng 0 i) (validFeatures S ! i)"
  by (simp add: withRandom_def randomColumn_def)

lemma withRandom_length: "length (withRandom rng S) = length (validFeatures S)"
  by (simp add: withRandom_def randomColumn_def)

lemma withRandom_mem:
  "f \<in> set (withRandom rng S) \<longleftrightarrow>
     (\<exists>i < length (validFeatures S). f = set_prop ''random'' (rng 0 i) (validFeatures S ! i))"
  using withRandom_nth [of _ S rng] withRandom_length [of rng S]
  by (auto simp: in_set_conv_nth)

lemma trainingSamples_conv:
  "trainingSamples rng S = filter (applies (Filter_lt ''random'' (7 / 10))) (withRandom rng S)"
  by (simp add: trainingSamples_def filter_fc_def)

lemma testingSamples_conv:
  "testingSamples rng S = filter (applies (Filter_gte ''random'' (7 / 10))) (withRandom rng S)"
  by (simp add: testingSamples_def filter_fc_def)

lemma split_exclusive:
  "applies (Filter_lt k c) f \<Longrightarrow> \<not> applies (Filter_gte k c) f"
  by (auto split: option.splits)

lemma split_exhaustive:
  "get f k = Some r \<Longrightarrow> applies (Filter_lt k c) f \<or> applies (Filter_gte k c) f"
  by auto

lemma aggregate_array_Cons:
  "aggregate_array (f # fs) k =
     (case get f k of None \<Rightarrow> aggregate_array fs k | Some v \<Rightarrow> v # aggregate_array fs k)"
  by (simp add: aggregate_array_def split: option.splits)

lemma aggregate_array_Nil: "aggregate_array [] k = []"
  by (simp add: aggregate_array_def)

lemma aggregate_array_all:
  "map (\<lambda>f. get f k) col = map Some xs \<Longrightarrow> aggregate_array col k = xs"
proof (induction col arbitrary: xs)
  case Nil
  then show ?case by (simp add: aggregate_array_Nil)
next
  case (Cons f fs)
  then obtain y ys where "xs = y # ys" "get f k = Some y" "map (\<lambda>f. get f k) fs = map Some ys"
    by (cases xs) auto
  with Cons.IH [of ys] show ?case by (simp add: aggregate_array_Cons)
qed

lemma pairs_all:
  assumes "map (\<lambda>f. get f ''rh95'') testPred = map Some obs"
    and "map (\<lambda>f. get f ''classification'') testPred = map Some preds"
  shows "pairs testPred = zip obs preds" and "length obs = length testPred"
    and "length preds = length testPred"
proof -
  show "pairs testPred = zip obs preds"
    by (simp add: pairs_def aggregate_array_all [OF assms(1)] aggregate_array_all [OF assms(2)])
  from assms(1) have "length (map (\<lambda>f. get f ''rh95'') testPred) = length (map Some obs)" by simp
  then show "length obs = length testPred" by simp
  from assms(2) have "length (map (\<lambda>f. get f ''classification'') testPred) = length (map Some preds)"
    by simp
  then show "length preds = length testPred" by simp
qed

lemma map_zip_swap:
  "map (\<lambda>pair. g (snd pair) (fst pair)) (zip xs ys) = map (\<lambda>(p, obs). g p obs) (zip ys xs)"
proof (induction xs arbitrary: ys)
  case Nil
  then show ?case by simp
next
  case (Cons x xs)
  then show ?case by (cases ys) auto
qed

lemma filter_fst_map_of:
  "filter (\<lambda>nb. fst nb = n) bs = x # xs \<Longrightarrow> map_of bs n = Some (snd x)"
proof (induction bs)
  case Nil
  then show ?case by simp
next
  case (Cons b bs)
  then show ?case by (cases b) (auto split: if_splits)
qed

lemma select_first_band:
  assumes "select [n] img = Some d" and "CHR ''.'' \<notin> set n" and "CHR ''*'' \<notin> set n"
  shows "band_of img n = Some (first_band d)"
proof -
  from select_Some [OF assms(1)] obtain m where m: "select_one img n = Some m" and d: "bands d = m"
    by (auto split: Option.bind_splits)
  from m obtain x xs where f: "filter (\<lambda>nb. rmatch n (fst nb)) (bands img) = x # xs"
    and mx: "m = x # xs"
    by (auto simp: select_one_def split: list.splits)
  from f have "filter (\<lambda>nb. fst nb = n) (bands img) = x # xs"
    by (simp add: rmatch_literal [OF assms(2,3)])
  from filter_fst_map_of [OF this] d mx show ?thesis
    by (simp add: band_of_def first_band_def)
qed

lemma index_image:
  assumes r: "do { a \<leftarrow> select [A] img;
                   b \<leftarrow> select [B] img;
                   e \<leftarrow> expression zd img (Div (Sub (Var x) (Var y)) (Add (Var x) (Var y)))
                          [(x, a), (y, b)];
                   rename e [nm] } = Some r"
    and xy: "x \<noteq> y"
    and lit: "CHR ''.'' \<notin> set A" "CHR ''*'' \<notin> set A" "CHR ''.'' \<notin> set B" "CHR ''*'' \<notin> set B"
  shows "\<exists>ba bb. band_of img A = Some ba \<and> band_of img B = Some bb \<and>
                 bands r = [(nm, index_band zd ba bb)]"
proof -
  from r obtain a b e where a: "select [A] img = Some a" and b: "select [B] img = Some b"
    and e: "expression zd img (Div (Sub (Var x) (Var y)) (Add (Var x) (Var y))) [(x, a), (y, b)] = Some e"
    and rn: "rename e [nm] = Some r"
    by (auto split: Option.bind_splits)
  from e xy have "map snd (bands e) = [index_band zd (first_band a) (first_band b)]"
    by (auto simp: expression_def index_band_def fun_eq_iff split: if_splits option.splits Option.bind_splits)
  with rn have "bands r = [(nm, index_band zd (first_band a) (first_band b))]"
    by (auto simp: rename_def split: if_splits)
  with select_first_band [OF a lit(1,2)] select_first_band [OF b lit(3,4)] show ?thesis by blast
qed

lemma addBands_single:
  "bands src = [(n, b)] \<Longrightarrow> n \<notin> set (bandNames im) \<Longrightarrow>
     bands (addBands im src) = bands im @ [(n, b)] \<and> time_start (addBands im src) = time_start im"
  by (simp add: addBands_def bandNames_def)

lemma stacked_bands:
  assumes st: "stacked zd img = Some st"
    and fresh: "''ndvi'' \<notin> set (bandNames img)" "''nbr'' \<notin> set (bandNames img)"
      "''ndmi'' \<notin> set (bandNames img)"
  shows "\<exists>nir red swir1 swir2.
           band_of img ''B8_median'' = Some nir \<and> band_of img ''B4_median'' = Some red \<and>
           band_of img ''B11_median'' = Some swir1 \<and> band_of img ''B12_median'' = Some swir2 \<and>
           bands st = bands img @ [(''ndvi'', index_band zd nir red), (''nbr'', index_band zd nir swir1),
                                    (''ndmi'', index_band zd nir swir2)]"
proof -
  from st obtain a b c where a: "ndvi zd img = Some a" and b: "nbr zd img = Some b"
    and c: "ndmi zd img = Some c" and s: "st = addBands (addBands (addBands img a) b) c"
    by (auto simp: stacked_def split: Option.bind_splits)
  from index_image [OF a [unfolded ndvi_def]] obtain nir red where
    nir: "band_of img ''B8_median'' = Some nir" and red: "band_of img ''B4_median'' = Some red"
    and ba: "bands a = [(''ndvi'', index_band zd nir red)]" by auto
  from index_image [OF b [unfolded nbr_def]] nir obtain swir1 where
    swir1: "band_of img ''B11_median'' = Some swir1"
    and bb: "bands b = [(''nbr'', index_band zd nir swir1)]" by auto
  from index_image [OF c [unfolded ndmi_def]] nir obtain swir2 where
    swir2: "band_of img ''B12_median'' = Some swir2"
    and bc: "bands c = [(''ndmi'', index_band zd nir swir2)]" by auto
  from addBands_single [OF ba fresh(1)]
  have s1: "bands (addBands img a) = bands img @ [(''ndvi'', index_band zd nir red)]" by simp
  with fresh(2) have "''nbr'' \<notin> set (bandNames (addBands img a))" by (simp add: bandNames_def)
  from addBands_single [OF bb this] s1
  have s2: "bands (addBands (addBands img a) b) =
            bands img @ [(''ndvi'', index_band zd nir red), (''nbr'', index_band zd nir swir1)]" by simp
  with fresh(3) have "''ndmi'' \<notin> set (bandNames (addBands (addBands img a) b))"
    by (simp add: bandNames_def)
  from addBands_single [OF bc this] s2 s
  have "bands st = bands img @ [(''ndvi'', index_band zd nir red), (''nbr'', index_band zd nir swir1),
                                 (''ndmi'', index_band zd nir swir2)]" by simp
  with nir red swir1 swir2 show ?thesis by blast
qed

lemma select_exists:
  assumes "n \<in> set (bandNames img)" and "CHR ''.'' \<notin> set n" and "CHR ''*'' \<notin> set n"
  shows "\<exists>d. select [n] img = Some d"
proof -
  from assms(1) obtain nb where "nb \<in> set (bands img)" "fst nb = n"
    by (auto simp: bandNames_def)
  then have "filter (\<lambda>nb. rmatch n (fst nb)) (bands img) \<noteq> []"
    by (auto simp: filter_empty_conv rmatch_literal [OF assms(2,3)])
  then show ?thesis
    by (auto simp: select_def select_one_def split: list.splits)
qed

lemma index_image_exists:
  assumes "A \<in> set (bandNames img)" and "B \<in> set (bandNames img)"
    and "CHR ''.'' \<notin> set A" "CHR ''*'' \<notin> set A" "CHR ''.'' \<notin> set B" "CHR ''*'' \<notin> set B"
  shows "\<exists>r. do { a \<leftarrow> select [A] img;
                   b \<leftarrow> select [B] img;
                   e \<leftarrow> expression zd img (Div (Sub (Var x) (Var y)) (Add (Var x) (Var y)))
                          [(x, a), (y, b)];
                   rename e [nm] } = Some r"
proof -
  from select_exists [OF assms(1,3,4)] obtain a where a: "select [A] img = Some a" by blast
  from select_exists [OF assms(2,5,6)] obtain b where b: "select [B] img = Some b" by blast
  show ?thesis by (simp add: a b expression_def rename_def)
qed

lemma stacked_exists:
  assumes "''B8_median'' \<in> set (bandNames img)" and "''B4_median'' \<in> set (bandNames img)"
    and "''B11_median'' \<in> set (bandNames img)" and "''B12_median'' \<in> set (bandNames img)"
  shows "\<exists>st. stacked zd img = Some st"
proof -
  from index_image_exists [OF assms(1,2), of zd "''NIR''" "''Red''" "''ndvi''"]
  obtain a where a: "ndvi zd img = Some a" by (auto simp: ndvi_def)
  from index_image_exists [OF assms(1,3), of zd "''NIR''" "''SWIR1''" "''nbr''"]
  obtain b where b: "nbr zd img = Some b" by (auto simp: nbr_def)
  from index_image_exists [OF assms(1,4), of zd "''NIR''" "''SWIR2''" "''ndmi''"]
  obtain c where c: "ndmi zd img = Some c" by (auto simp: ndmi_def)
  show ?thesis by (simp add: stacked_def a b c)
qed

lemma index_band_defined:
  "a p = Some u \<Longrightarrow> b p = Some v \<Longrightarrow> u + v \<noteq> 0 \<Longrightarrow>
     index_band zd a b p = Some (spec_normalized_difference u v)"
  by (simp add: index_band_def divide_px_def spec_normalized_difference_def)

lemma stacked_index_bands:
  assumes "bands st = bands img @ [(''ndvi'', i1), (''nbr'', i2), (''ndmi'', i3)]"
    and "''ndvi'' \<notin> set (bandNames img)" "''nbr'' \<notin> set (bandNames img)"
      "''ndmi'' \<notin> set (bandNames img)"
  shows "band_of st ''ndvi'' = Some i1" "band_of st ''nbr'' = Some i2" "band_of st ''ndmi'' = Some i3"
  using assms
  by (simp_all add: band_of_def bandNames_def map_add_def map_of_eq_None_iff [THEN iffD2]
      split: option.splits)

lemma split_empty:
  "validFeatures S = [] \<Longrightarrow> trainingSamples rng S = [] \<and> testingSamples rng S = []"
  by (simp add: trainingSamples_def testingSamples_def withRandom_def randomColumn_def filter_fc_def)

lemma training_empty: "training st [] = []"
  by (simp add: training_def sampleRegions_def)

lemma ex_rng_range: "\<forall>i. 0 \<le> ex_rng 0 i \<and> ex_rng 0 i < 1"
  by (simp add: ex_rng_def)

lemma ex_split:
  "trainingSamples ex_rng ex_S2samples =
     [\<lparr>geometry = Some (0, 0), properties = [(''rh95'', 12), (''B8_median'', 3000), (''random'', 0)]\<rparr>,
      \<lparr>geometry = Some (1, 0), properties = [(''rh95'', 7), (''B8_median'', 2800), (''random'', 2 / 5)]\<rparr>]"
  "testingSamples ex_rng ex_S2samples =
     [\<lparr>geometry = Some (1, 1), properties = [(''rh95'', 31), (''random'', 4 / 5)]\<rparr>]"
  by (simp_all add: trainingSamples_def testingSamples_def withRandom_def randomColumn_def
      validFeatures_def filter_fc_def ex_S2samples_def ex_rng_def get_def set_prop_def
      upt_conv_Cons)

lemma ex_testPred_values:
  "map (\<lambda>f. get f ''rh95'') ex_testPred = map Some [10, 20, 30]"
  "map (\<lambda>f. get f ''classification'') ex_testPred = map Some [12, 18, 33]"
  "ex_testPred \<noteq> []"
  by (simp_all add: ex_testPred_def get_def)

lemma ex_composite_names:
  "bandNames ex_composite = [''B2_median'', ''B3_median'', ''B4_median'', ''B5_median'',
     ''B7_median'', ''B8_median'', ''B11_median'', ''B12_median'']"
  by (simp add: ex_composite_def bandNames_def)

lemma ex_composite_bands:
  "band_of ex_composite ''B8_median'' = Some nir \<Longrightarrow> nir (1, 1) = Some 3000"
  "band_of ex_composite ''B4_median'' = Some red \<Longrightarrow> red (1, 1) = Some 1000"
  "band_of ex_composite ''B11_median'' = Some swir1 \<Longrightarrow> swir1 (1, 1) = Some 2000"
  "band_of ex_composite ''B12_median'' = Some swir2 \<Longrightarrow> swir2 (1, 1) = Some 1500"
  by (auto simp: band_of_def ex_composite_def)

lemma ex_stacked: "\<exists>st. stacked zd ex_composite = Some st"
  by (rule stacked_exists) (simp_all add: ex_composite_names)

lemma ex_null_samples_valid: "validFeatures ex_null_samples = []"
  by (simp add: validFeatures_def filter_fc_def ex_null_samples_def get_def)















section \<open>The quality filter\<close>

text \<open>
  Claim C10.  The quality mask only removes pixels.  Whenever \<open>qualityMask\<close> accepts an
  image, the result has the same band names in the same order and the same date, and
  every pixel that is still valid in a band of the result holds the value the input
  image has there in that band (\<open>rh95\<close> included).
\<close>

theorem qualityMask_frame:
  assumes "qualityMask im = Some im'"
  shows "bandNames im' = bandNames im \<and> time_start im' = time_start im \<and>
         (\<forall>i p v. i < length (bands im) \<and> snd (bands im' ! i) p = Some v
            \<longrightarrow> snd (bands im ! i) p = Some v)"
  using qualityMask_shape [OF assms] qualityMask_pixel [OF assms] by blast

theorem qualityMask_frame_witness:
  "\<exists>im'. qualityMask ex_im = Some im' \<and> bandNames im' = bandNames ex_im \<and>
     time_start im' = time_start ex_im \<and>
     snd (bands im' ! 1) (0, 0) = Some 20 \<and> snd (bands ex_im ! 1) (0, 0) = Some 20"
proof -
  from ex_qualityMask obtain im' where q: "qualityMask ex_im = Some im'"
    and v: "values_at (0, 0) im' = [Some 5, Some 20, Some 42, Some (- 75), Some 1, Some 0]"
    by auto
  from v have "map (\<lambda>nb. snd nb (0, 0)) (bands im') ! 1 = Some 20"
    by (simp add: values_at_def)
  moreover from v have "length (values_at (0, 0) im') = 6" by simp
  then have "length (bands im') = 6" by (simp add: values_at_def)
  ultimately have v1: "snd (bands im' ! 1) (0, 0) = Some 20" by simp
  have len: "(1::nat) < length (bands ex_im)" by (simp add: ex_im_def)
  from qualityMask_frame [OF q] v1 len q show ?thesis by blast
qed

text \<open>
  Claim C1, as the script has it.  Every image of \<open>gedi\<close> comes from an image of the raw
  collection dated from 1 June 2019 (included) to 1 October 2019 (excluded); a pixel
  that is valid in one of its bands lies in the region of interest, has
  \<open>quality_flag = 1\<close> and \<open>degrade_flag = 0\<close> in the raw image, and keeps the raw value.
  The bands kept are all the bands whose name starts with \<open>rh\<close>, then
  \<open>lat_highestreturn\<close>, then \<open>lon_highestreturn\<close>; every other band is dropped.
\<close>

theorem gedi_retained:
  assumes "gedi raw ROI = Some out" and "im' \<in> set out"
  shows "\<exists>im \<in> set raw.
           time_start im' = time_start im \<and>
           date_le (2019, 6, 1) (time_start im) \<and> date_lt (time_start im) (2019, 10, 1) \<and>
           bandNames im' = filter (\<lambda>n. take 2 n = ''rh'') (bandNames im) @
                           filter (\<lambda>n. n = ''lat_highestreturn'') (bandNames im) @
                           filter (\<lambda>n. n = ''lon_highestreturn'') (bandNames im) \<and>
           (\<forall>n b' p v. (n, b') \<in> set (bands im') \<and> b' p = Some v \<longrightarrow>
              p \<in> ROI \<and>
              (\<exists>q. (''quality_flag'', q) \<in> set (bands im) \<and> q p = Some 1) \<and>
              (\<exists>d. (''degrade_flag'', d) \<in> set (bands im) \<and> d p = Some 0) \<and>
              (\<exists>b. (n, b) \<in> set (bands im) \<and> b p = Some v))"
proof -
  let ?sel = "[''rh.*'', ''lat_highestreturn'', ''lon_highestreturn'']"
  from gedi_steps [OF assms] obtain im m where im: "im \<in> set raw"
    and qm: "qualityMask im = Some m"
    and dt: "date_le (2019, 6, 1) (time_start m)" "date_lt (time_start m) (2019, 10, 1)"
    and sel: "select ?sel (clip m ROI) = Some im'"
    by blast
  from qualityMask_shape [OF qm] have names: "bandNames m = bandNames im"
    and time: "time_start m = time_start im" by simp_all
  from select_Some [OF sel] have t': "time_start im' = time_start im"
    by (simp add: clip_shape time)
  have bn: "bandNames im' = filter (\<lambda>n. take 2 n = ''rh'') (bandNames im) @
                           filter (\<lambda>n. n = ''lat_highestreturn'') (bandNames im) @
                           filter (\<lambda>n. n = ''lon_highestreturn'') (bandNames im)"
    unfolding names [symmetric] clip_shape(1) [of m ROI, symmetric]
    by (simp add: bandNames_def select_three [OF sel] filter_map comp_def rmatch_rh selector_names)
  have px: "p \<in> ROI \<and>
            (\<exists>q. (''quality_flag'', q) \<in> set (bands im) \<and> q p = Some 1) \<and>
            (\<exists>d. (''degrade_flag'', d) \<in> set (bands im) \<and> d p = Some 0) \<and>
            (\<exists>b. (n, b) \<in> set (bands im) \<and> b p = Some v)"
    if nb: "(n, b') \<in> set (bands im')" and v: "b' p = Some v" for n b' p v
  proof -
    from select_Some [OF sel] have "select_all (clip m ROI) ?sel = Some (bands im')" by simp
    from select_all_sub [OF this nb] have "(n, b') \<in> set (bands (clip m ROI))" by simp
    from clip_band [OF this v] obtain j where roi: "p \<in> ROI" and j: "j < length (bands m)"
      and fj: "fst (bands m ! j) = n" and vj: "snd (bands m ! j) p = Some v" by blast
    from names have len: "length (bands m) = length (bands im)"
      by (metis bandNames_def length_map)
    with j have j': "j < length (bands im)" by simp
    from names j j' fj have fn: "fst (bands im ! j) = n"
      by (metis bandNames_def nth_map)
    from qualityMask_pixel [OF qm j' vj] have
      orig: "snd (bands im ! j) p = Some v"
      and Q: "\<exists>q. (''quality_flag'', q) \<in> set (bands im) \<and> q p = Some 1"
      and D: "\<exists>d. (''degrade_flag'', d) \<in> set (bands im) \<and> d p = Some 0" by simp_all
    from j' fn have "(n, snd (bands im ! j)) \<in> set (bands im)"
      by (metis nth_mem prod.collapse)
    with orig roi Q D show ?thesis by blast
  qed
  from px have all: "\<forall>n b' p v. (n, b') \<in> set (bands im') \<and> b' p = Some v \<longrightarrow>
              p \<in> ROI \<and>
              (\<exists>q. (''quality_flag'', q) \<in> set (bands im) \<and> q p = Some 1) \<and>
              (\<exists>d. (''degrade_flag'', d) \<in> set (bands im) \<and> d p = Some 0) \<and>
              (\<exists>b. (n, b) \<in> set (bands im) \<and> b p = Some v)"
    by (intro allI impI) (elim conjE)
  show ?thesis
    by (rule bexI [OF _ im]) (intro conjI t' dt [unfolded time] bn all)
qed

theorem gedi_retained_witness:
  "\<exists>out im'. gedi ex_raw ex_ROI = Some out \<and> im' \<in> set out \<and>
     (\<exists>im \<in> set ex_raw.
        time_start im' = time_start im \<and>
        date_le (2019, 6, 1) (time_start im) \<and> date_lt (time_start im) (2019, 10, 1) \<and>
        bandNames im' = filter (\<lambda>n. take 2 n = ''rh'') (bandNames im) @
                        filter (\<lambda>n. n = ''lat_highestreturn'') (bandNames im) @
                        filter (\<lambda>n. n = ''lon_highestreturn'') (bandNames im))"
proof -
  from ex_gedi_names obtain out where g: "gedi ex_raw ex_ROI = Some out"
    and n: "map bandNames out = [[''rh50'', ''rh95'', ''lat_highestreturn'', ''lon_highestreturn'']]"
    by auto
  from n obtain im' where mem: "im' \<in> set out" by (cases out) auto
  from gedi_retained [OF g mem] g mem show ?thesis by blast
qed

text \<open>
  The claim as worded, that a retained element carries only the one percentile height
  and its two coordinates, fails: in the example the band \<open>rh50\<close> is kept beside \<open>rh95\<close>,
  with its value 5 at the good shot.  The later \<open>gedi95\<close> keeps \<open>rh95\<close> alone, without
  the coordinates.  The image of 15 October 2019 is not in the result.
\<close>

theorem gedi_keeps_other_height_bands:
  "map_option (map bandNames) (gedi ex_raw ex_ROI) =
     Some [[''rh50'', ''rh95'', ''lat_highestreturn'', ''lon_highestreturn'']] \<and>
   map_option (map (values_at (0, 0))) (gedi ex_raw ex_ROI) =
     Some [[Some 5, Some 20, Some 42, Some (- 75)]] \<and>
   map_option (map bandNames) (gedi95 ex_raw ex_ROI) = Some [[''rh95'']]"
  by (simp add: gedi95_def gedi_def ex_raw_def ex_ROI_def qualityMask_def ex_im_def select_def
      select_one_def updateMask_def eq_im_def filterDate_def date_le_def clip_def bandNames_def
      values_at_def mask_band_def eq_px_def)

section \<open>The vegetation indices\<close>

text \<open>
  Claim C4.  When the composite has no band named \<open>ndvi\<close>, \<open>nbr\<close> or \<open>ndmi\<close>, the
  stacked image is the composite with the three index bands appended under these names,
  in this order.  At every pixel where the near-infrared band holds \<open>a\<close>, the other band
  holds \<open>b\<close> and \<open>a + b\<close> is not 0, the index is \<open>(a - b) / (a + b)\<close>: with the red band
  for \<open>ndvi\<close>, the first shortwave-infrared band for \<open>nbr\<close> and the second one for
  \<open>ndmi\<close>.  This holds whatever the platform gives for a zero divisor.
\<close>

theorem indices_normalized_difference:
  assumes st: "stacked zd img = Some st"
    and fresh: "''ndvi'' \<notin> set (bandNames img)" "''nbr'' \<notin> set (bandNames img)"
      "''ndmi'' \<notin> set (bandNames img)"
  shows "bandNames st = bandNames img @ [''ndvi'', ''nbr'', ''ndmi''] \<and>
         take (length (bands img)) (bands st) = bands img \<and>
         (\<exists>nir red swir1 swir2 i1 i2 i3.
            band_of img ''B8_median'' = Some nir \<and> band_of img ''B4_median'' = Some red \<and>
            band_of img ''B11_median'' = Some swir1 \<and> band_of img ''B12_median'' = Some swir2 \<and>
            band_of st ''ndvi'' = Some i1 \<and> band_of st ''nbr'' = Some i2 \<and>
            band_of st ''ndmi'' = Some i3 \<and>
            (\<forall>p a b. nir p = Some a \<and> red p = Some b \<and> a + b \<noteq> 0
               \<longrightarrow> i1 p = Some (spec_normalized_difference a b)) \<and>
            (\<forall>p a b. nir p = Some a \<and> swir1 p = Some b \<and> a + b \<noteq> 0
               \<longrightarrow> i2 p = Some (spec_normalized_difference a b)) \<and>
            (\<forall>p a b. nir p = Some a \<and> swir2 p = Some b \<and> a + b \<noteq> 0
               \<longrightarrow> i3 p = Some (spec_normalized_difference a b)))"
proof -
  from stacked_bands [OF st fresh] obtain nir red swir1 swir2 where
    src: "band_of img ''B8_median'' = Some nir" "band_of img ''B4_median'' = Some red"
      "band_of img ''B11_median'' = Some swir1" "band_of img ''B12_median'' = Some swir2"
    and b: "bands st = bands img @ [(''ndvi'', index_band zd nir red),
              (''nbr'', index_band zd nir swir1), (''ndmi'', index_band zd nir swir2)]"
    by blast
  from b have names: "bandNames st = bandNames img @ [''ndvi'', ''nbr'', ''ndmi'']"
    by (simp add: bandNames_def)
  from b have kept: "take (length (bands img)) (bands st) = bands img" by simp
  note idx = stacked_index_bands [OF b fresh]
  from names kept src idx show ?thesis
    using index_band_defined by blast
qed

theorem indices_normalized_difference_witness:
  "\<exists>st. stacked ex_zero_divisor ex_composite = Some st \<and>
     ''ndvi'' \<notin> set (bandNames ex_composite) \<and> ''nbr'' \<notin> set (bandNames ex_composite) \<and>
     ''ndmi'' \<notin> set (bandNames ex_composite) \<and>
     bandNames st = bandNames ex_composite @ [''ndvi'', ''nbr'', ''ndmi''] \<and>
     (\<exists>i1 i2 i3. band_of st ''ndvi'' = Some i1 \<and> band_of st ''nbr'' = Some i2 \<and>
        band_of st ''ndmi'' = Some i3 \<and>
        i1 (1, 1) = Some (1 / 2) \<and> i2 (1, 1) = Some (1 / 5) \<and> i3 (1, 1) = Some (1 / 3))"
proof -
  from ex_stacked obtain st where st: "stacked ex_zero_divisor ex_composite = Some st" by blast
  have fresh: "''ndvi'' \<notin> set (bandNames ex_composite)" "''nbr'' \<notin> set (bandNames ex_composite)"
    "''ndmi'' \<notin> set (bandNames ex_composite)"
    by (simp_all add: ex_composite_names)
  from indices_normalized_difference [OF st fresh]
  obtain nir red swir1 swir2 i1 i2 i3 where
    names: "bandNames st = bandNames ex_composite @ [''ndvi'', ''nbr'', ''ndmi'']"
    and src: "band_of ex_composite ''B8_median'' = Some nir"
      "band_of ex_composite ''B4_median'' = Some red"
      "band_of ex_composite ''B11_median'' = Some swir1"
      "band_of ex_composite ''B12_median'' = Some swir2"
    and idx: "band_of st ''ndvi'' = Some i1" "band_of st ''nbr'' = Some i2"
      "band_of st ''ndmi'' = Some i3"
    and v1: "\<forall>p a b. nir p = Some a \<and> red p = Some b \<and> a + b \<noteq> 0
               \<longrightarrow> i1 p = Some (spec_normalized_difference a b)"
    and v2: "\<forall>p a b. nir p = Some a \<and> swir1 p = Some b \<and> a + b \<noteq> 0
               \<longrightarrow> i2 p = Some (spec_normalized_difference a b)"
    and v3: "\<forall>p a b. nir p = Some a \<and> swir2 p = Some b \<and> a + b \<noteq> 0
               \<longrightarrow> i3 p = Some (spec_normalized_difference a b)"
    by blast
  note e = ex_composite_bands(1) [OF src(1)] ex_composite_bands(2) [OF src(2)]
    ex_composite_bands(3) [OF src(3)] ex_composite_bands(4) [OF src(4)]
  from v1 [rule_format, of "(1, 1)" 3000 1000] e have "i1 (1, 1) = Some (1 / 2)"
    by (simp add: spec_normalized_difference_def)
  moreover from v2 [rule_format, of "(1, 1)" 3000 2000] e have "i2 (1, 1) = Some (1 / 5)"
    by (simp add: spec_normalized_difference_def)
  moreover from v3 [rule_format, of "(1, 1)" 3000 1500] e have "i3 (1, 1) = Some (1 / 3)"
    by (simp add: spec_normalized_difference_def)
  ultimately show ?thesis using st fresh names idx by blast
qed

section \<open>The sample splitter\<close>

text \<open>
  Claim C2.  Let the generator give numbers in \<open>[0, 1)\<close> under seed 0.  Then every
  feature of \<open>withRandom\<close> has a target \<open>rh95\<close> and a \<open>random\<close> value in \<open>[0, 1)\<close>; it is
  in the training set when the value is below 0.7 and in the testing set when the value
  is at least 0.7; the two sets are disjoint, together they are \<open>withRandom\<close>, they hold
  every sample with a target (with its random value added), and no feature of either
  set lacks the target.
\<close>

theorem sample_split:
  assumes rng: "\<forall>i. 0 \<le> rng 0 i \<and> rng 0 i < 1"
  shows "(\<forall>f \<in> set (withRandom rng S).
            get f ''rh95'' \<noteq> None \<and>
            (\<exists>r. get f ''random'' = Some r \<and> 0 \<le> r \<and> r < 1 \<and>
                 (r < 7 / 10 \<longrightarrow> f \<in> set (trainingSamples rng S)) \<and>
                 (7 / 10 \<le> r \<longrightarrow> f \<in> set (testingSamples rng S)))) \<and>
         (\<forall>f \<in> set (trainingSamples rng S). \<exists>r. get f ''random'' = Some r \<and> r < 7 / 10) \<and>
         (\<forall>f \<in> set (testingSamples rng S). \<exists>r. get f ''random'' = Some r \<and> 7 / 10 \<le> r) \<and>
         set (trainingSamples rng S) \<inter> set (testingSamples rng S) = {} \<and>
         set (trainingSamples rng S) \<union> set (testingSamples rng S) = set (withRandom rng S) \<and>
         (\<forall>f \<in> set S. get f ''rh95'' \<noteq> None \<longrightarrow>
            (\<exists>r. set_prop ''random'' r f \<in> set (trainingSamples rng S) \<union> set (testingSamples rng S))) \<and>
         (\<forall>f \<in> set (trainingSamples rng S) \<union> set (testingSamples rng S). get f ''rh95'' \<noteq> None)"
proof -
  have wr: "get f ''rh95'' \<noteq> None \<and> (\<exists>r. get f ''random'' = Some r \<and> 0 \<le> r \<and> r < 1)"
    if "f \<in> set (withRandom rng S)" for f
  proof -
    from that obtain i where i: "i < length (validFeatures S)"
      and f: "f = set_prop ''random'' (rng 0 i) (validFeatures S ! i)"
      by (auto simp: withRandom_mem)
    from i have "validFeatures S ! i \<in> set (validFeatures S)" by simp
    then have "get (validFeatures S ! i) ''rh95'' \<noteq> None" by (simp add: validFeatures_conv)
    with f rng show ?thesis by (simp add: get_set_prop)
  qed
  have disj: "set (trainingSamples rng S) \<inter> set (testingSamples rng S) = {}"
    using split_exclusive by (auto simp: trainingSamples_conv testingSamples_conv)
  have cover: "set (trainingSamples rng S) \<union> set (testingSamples rng S) = set (withRandom rng S)"
  proof
    show "set (trainingSamples rng S) \<union> set (testingSamples rng S) \<subseteq> set (withRandom rng S)"
      by (auto simp: trainingSamples_conv testingSamples_conv)
    show "set (withRandom rng S) \<subseteq> set (trainingSamples rng S) \<union> set (testingSamples rng S)"
    proof
      fix f assume f: "f \<in> set (withRandom rng S)"
      from wr [OF f] obtain r where "get f ''random'' = Some r" by blast
      from split_exhaustive [OF this] f
      show "f \<in> set (trainingSamples rng S) \<union> set (testingSamples rng S)"
        by (auto simp: trainingSamples_conv testingSamples_conv)
    qed
  qed
  have c1: "\<forall>f \<in> set (withRandom rng S).
            get f ''rh95'' \<noteq> None \<and>
            (\<exists>r. get f ''random'' = Some r \<and> 0 \<le> r \<and> r < 1 \<and>
                 (r < 7 / 10 \<longrightarrow> f \<in> set (trainingSamples rng S)) \<and>
                 (7 / 10 \<le> r \<longrightarrow> f \<in> set (testingSamples rng S)))"
  proof
    fix f assume f: "f \<in> set (withRandom rng S)"
    from wr [OF f] obtain r where r: "get f ''random'' = Some r" "0 \<le> r" "r < 1"
      and h: "get f ''rh95'' \<noteq> None" by blast
    from r f have "r < 7 / 10 \<longrightarrow> f \<in> set (trainingSamples rng S)"
      by (simp add: trainingSamples_conv)
    moreover from r f have "7 / 10 \<le> r \<longrightarrow> f \<in> set (testingSamples rng S)"
      by (simp add: testingSamples_conv)
    ultimately show "get f ''rh95'' \<noteq> None \<and>
            (\<exists>r. get f ''random'' = Some r \<and> 0 \<le> r \<and> r < 1 \<and>
                 (r < 7 / 10 \<longrightarrow> f \<in> set (trainingSamples rng S)) \<and>
                 (7 / 10 \<le> r \<longrightarrow> f \<in> set (testingSamples rng S)))"
      using r h by blast
  qed
  have c2: "\<forall>f \<in> set (trainingSamples rng S). \<exists>r. get f ''random'' = Some r \<and> r < 7 / 10"
    by (auto simp: trainingSamples_conv split: option.splits)
  have c3: "\<forall>f \<in> set (testingSamples rng S). \<exists>r. get f ''random'' = Some r \<and> 7 / 10 \<le> r"
    by (auto simp: testingSamples_conv split: option.splits)
  have c6: "\<forall>f \<in> set S. get f ''rh95'' \<noteq> None \<longrightarrow>
            (\<exists>r. set_prop ''random'' r f \<in> set (trainingSamples rng S) \<union> set (testingSamples rng S))"
  proof (intro ballI impI)
    fix f assume "f \<in> set S" "get f ''rh95'' \<noteq> None"
    then have "f \<in> set (validFeatures S)" by (simp add: validFeatures_conv)
    then obtain i where i: "i < length (validFeatures S)" "validFeatures S ! i = f"
      by (auto simp: in_set_conv_nth)
    then have "set_prop ''random'' (rng 0 i) f \<in> set (withRandom rng S)"
      unfolding withRandom_mem by blast
    with cover show "\<exists>r. set_prop ''random'' r f \<in> set (trainingSamples rng S) \<union> set (testingSamples rng S)"
      by blast
  qed
  have c7: "\<forall>f \<in> set (trainingSamples rng S) \<union> set (testingSamples rng S). get f ''rh95'' \<noteq> None"
    unfolding cover using wr by blast
  from c1 c2 c3 disj cover c6 c7 show ?thesis by (intro conjI)
qed

theorem sample_split_witness:
  "(\<forall>i. 0 \<le> ex_rng 0 i \<and> ex_rng 0 i < 1) \<and>
   length (trainingSamples ex_rng ex_S2samples) = 2 \<and>
   length (testingSamples ex_rng ex_S2samples) = 1 \<and>
   set (trainingSamples ex_rng ex_S2samples) \<inter> set (testingSamples ex_rng ex_S2samples) = {} \<and>
   set (trainingSamples ex_rng ex_S2samples) \<union> set (testingSamples ex_rng ex_S2samples) =
     set (withRandom ex_rng ex_S2samples)"
  using sample_split [of ex_rng ex_S2samples, OF ex_rng_range] ex_rng_range
  by (simp add: ex_split)

section \<open>The regressor\<close>

text \<open>
  Claim C3.  For every training table, the forest is set up with 74 trees, a minimum
  leaf population of 3, a bag fraction of 1 and seed 123, in regression mode; it is
  trained on the eleven input bands (the eight spectral bands, then \<open>ndvi\<close>, \<open>nbr\<close>,
  \<open>ndmi\<close>) with \<open>rh95\<close> as the target.
\<close>

theorem RFmodel_configuration:
  "RFmodel t = Some \<lparr>config = \<lparr>numberOfTrees = 74, variablesPerSplit = None,
                                  minLeafPopulation = 3, bagFraction = 1, maxNodes = None,
                                  seed = 123, outputMode = REGRESSION\<rparr>,
                      features = t, inputProperties = spectral_bands @ index_bands,
                      classProperty = ''rh95''\<rparr> \<and>
   inputBands = spectral_bands @ index_bands \<and> length inputBands = 11 \<and> distinct inputBands \<and>
   length spectral_bands = 8 \<and> index_bands = [''ndvi'', ''nbr'', ''ndmi'']"
  by (simp add: RFmodel_def setOutputMode_def smileRandomForest_def train_def inputBands_def
      spectral_bands_def index_bands_def)

section \<open>The evaluator\<close>

text \<open>
  Claim C5.  For a non-empty testing table in which every feature has an observation
  \<open>rh95\<close> and a prediction \<open>classification\<close>, \<open>rmseVal\<close> is the specification's
  \<open>sqrt(mean((pred - obs)^2))\<close> and \<open>maeVal\<close> is its \<open>mean(|pred - obs|)\<close>, over the
  pairs of the table's features.
\<close>

theorem evaluator_metrics:
  assumes ne: "testPred \<noteq> []"
    and obs: "map (\<lambda>f. get f ''rh95'') testPred = map Some obs"
    and preds: "map (\<lambda>f. get f ''classification'') testPred = map Some preds"
  shows "rmseVal testPred = Some (spec_RMSE (zip preds obs)) \<and>
         maeVal testPred = Some (spec_MAE (zip preds obs))"
proof -
  note p = pairs_all [OF obs preds]
  from p(2,3) ne have len: "length (zip obs preds) = length (zip preds obs)" "zip obs preds \<noteq> []"
    by auto
  have r: "rmse testPred = map (\<lambda>(pred, obs). (pred - obs) ^ 2) (zip preds obs)"
    unfolding rmse_def p(1) by (rule map_zip_swap)
  have m: "mae testPred = map (\<lambda>(pred, obs). \<bar>pred - obs\<bar>) (zip preds obs)"
    unfolding mae_def p(1) by (rule map_zip_swap)
  from len p(2,3) ne have ne': "zip preds obs \<noteq> []" by auto
  show ?thesis
    using ne' by (simp add: rmseVal_def maeVal_def r m reduce_mean_def spec_RMSE_def spec_MAE_def)
qed

theorem evaluator_metrics_witness:
  "ex_testPred \<noteq> [] \<and>
   map (\<lambda>f. get f ''rh95'') ex_testPred = map Some [10, 20, 30] \<and>
   map (\<lambda>f. get f ''classification'') ex_testPred = map Some [12, 18, 33] \<and>
   rmseVal ex_testPred = Some (sqrt (17 / 3)) \<and> maeVal ex_testPred = Some (7 / 3)"
  using evaluator_metrics [OF ex_testPred_values(3) ex_testPred_values(1) ex_testPred_values(2)]
    ex_testPred_values
  by (simp add: spec_RMSE_def spec_MAE_def)




section \<open>The run on an empty sample set\<close>

text \<open>
  Claim C9, as the script has it.  When no sample has a target, the script does not
  stop: it prints the two counts, both 0, submits the two exports with empty tables and
  asks the platform to train the forest on a table with no rows.
\<close>

theorem run_without_samples:
  assumes "validFeatures S2samples = []" and "stacked zd img = Some st"
  shows "run_script zd rng img S2samples =
           Some \<lparr>console = [(''Training samples count:'', 0), (''Testing samples count:'', 0)],
                 exports = [(''GEDI_training_samples_NY_2019'', []),
                            (''GEDI_testing_samples_NY_2019'', [])],
                 fitted = \<lparr>config = \<lparr>numberOfTrees = 74, variablesPerSplit = None,
                                       minLeafPopulation = 3, bagFraction = 1, maxNodes = None,
                                       seed = 123, outputMode = REGRESSION\<rparr>,
                           features = [], inputProperties = inputBands,
                           classProperty = ''rh95''\<rparr>\<rparr>"
  using split_empty [OF assms(1), of rng] assms(2)
  by (simp add: run_script_def training_empty RFmodel_def setOutputMode_def
      smileRandomForest_def train_def)

theorem run_without_samples_witness:
  "validFeatures ex_null_samples = [] \<and> (\<exists>st. stacked ex_zero_divisor ex_composite = Some st) \<and>
   map_option console (run_script ex_zero_divisor ex_rng ex_composite ex_null_samples) =
     Some [(''Training samples count:'', 0), (''Testing samples count:'', 0)] \<and>
   map_option fitted (run_script ex_zero_divisor ex_rng ex_composite ex_null_samples) = RFmodel []"
proof -
  from ex_stacked obtain st where st: "stacked ex_zero_divisor ex_composite = Some st" by blast
  from run_without_samples [OF ex_null_samples_valid st, of ex_rng] ex_null_samples_valid st
  show ?thesis
    by (simp add: RFmodel_def setOutputMode_def smileRandomForest_def train_def)
qed

text \<open>
  The claim as worded, that the run fails fast before the fit, fails: on samples that
  all lack \<open>rh95\<close> the run of the script is a completed run whose fit was requested on
  zero rows.
\<close>

theorem run_fits_on_zero_rows:
  "run_script ex_zero_divisor ex_rng ex_composite ex_null_samples =
     Some \<lparr>console = [(''Training samples count:'', 0), (''Testing samples count:'', 0)],
           exports = [(''GEDI_training_samples_NY_2019'', []),
                      (''GEDI_testing_samples_NY_2019'', [])],
           fitted = \<lparr>config = \<lparr>numberOfTrees = 74, variablesPerSplit = None,
                                 minLeafPopulation = 3, bagFraction = 1, maxNodes = None,
                                 seed = 123, outputMode = REGRESSION\<rparr>,
                     features = [], inputProperties = inputBands, classProperty = ''rh95''\<rparr>\<rparr>"
proof -
  from ex_stacked obtain st where st: "stacked ex_zero_divisor ex_composite = Some st" by blast
  from split_empty [OF ex_null_samples_valid, of ex_rng] st show ?thesis
    by (simp add: run_script_def training_empty RFmodel_def setOutputMode_def
      smileRandomForest_def train_def)
qed

end
